theory Spec2Isabelle
  imports Main "HOL-Library.AList"
begin

section \<open>The Tutor-GPT pipe for OpenWebUI\<close>

text \<open>
  A shallow embedding of \<^verbatim>\<open>src/openwebui-pipe/tutor_gpt_pipe.py\<close>: the method
  \<^verbatim>\<open>Pipe.pipe\<close>, an asynchronous generator that forwards one chat request to the memory
  proxy and relays the proxy's server-sent events.

  A Python \<^verbatim>\<open>str\<close> is a \<^typ>\<open>string\<close>, one \<^typ>\<open>char\<close> per code point (code points
  below 256). The generator is run to its end: its result is the list of the strings it
  yields, in the order of the yields, together with the requests it handed to the HTTP
  client, the caller's \<^verbatim>\<open>body\<close> dictionary as the call leaves it, and the exception
  that leaves the generator, if any. Writes to the logger are left out: no yield depends
  on them.
\<close>

subsection \<open>Python values and text\<close>

text \<open>
  The values a JSON-compatible mapping holds. A dictionary is an association list in
  insertion order, read with \<^const>\<open>map_of\<close> and written with \<^const>\<open>AList.update\<close>
  (an existing key keeps its place, a new key goes to the end). A float is not modelled:
  the adapter stores, forwards and formats values, and computes with none.
\<close>

datatype pyvalue =
    PyNone
  | PyBool bool
  | PyInt int
  | PyStr string
  | PyList "pyvalue list"
  | PyDict "(string \<times> pyvalue) list"

type_synonym pydict = "(string \<times> pyvalue) list"

text \<open>\<^verbatim>\<open>str(n)\<close> of an integer: decimal digits, with a minus sign when negative.\<close>

fun str_nat :: "nat \<Rightarrow> string" where
  "str_nat n =
     (if n < 10 then [''0123456789'' ! n]
      else str_nat (n div 10) @ [''0123456789'' ! (n mod 10)])"

declare str_nat.simps [simp del]

definition str_int :: "int \<Rightarrow> string" where
  "str_int i = (if i < 0 then CHR ''-'' # str_nat (nat (- i)) else str_nat (nat i))"

text \<open>
  \<^verbatim>\<open>s.startswith(p)\<close>, \<^verbatim>\<open>s.endswith(p)\<close> and \<^verbatim>\<open>s.rstrip(c)\<close> for a single
  character \<open>c\<close>.
\<close>

definition startswith :: "string \<Rightarrow> string \<Rightarrow> bool" where
  "startswith s p = (take (length p) s = p)"

definition endswith :: "string \<Rightarrow> string \<Rightarrow> bool" where
  "endswith s p = (length p \<le> length s \<and> drop (length s - length p) s = p)"

definition rstrip :: "string \<Rightarrow> char \<Rightarrow> string" where
  "rstrip s c = rev (dropWhile (\<lambda>x. x = c) (rev s))"

text \<open>
  \<^verbatim>\<open>json.dumps\<close> with its defaults (\<^verbatim>\<open>ensure_ascii=True\<close>, separators
  \<^verbatim>\<open>", "\<close> and \<^verbatim>\<open>": "\<close>). A string is written between double quotes; the quote, the
  backslash and every character outside the range from space to tilde are escaped.
\<close>

definition hexdigit :: "nat \<Rightarrow> char" where
  "hexdigit n = ''0123456789abcdef'' ! (n mod 16)"

definition escape_char :: "char \<Rightarrow> string" where
  "escape_char c =
     (if c = CHR 0x22 then [CHR 0x5C, CHR 0x22]
      else if c = CHR 0x5C then [CHR 0x5C, CHR 0x5C]
      else if c = CHR 0x08 then [CHR 0x5C, CHR ''b'']
      else if c = CHR 0x0C then [CHR 0x5C, CHR ''f'']
      else if c = CHR 0x0A then [CHR 0x5C, CHR ''n'']
      else if c = CHR 0x0D then [CHR 0x5C, CHR ''r'']
      else if c = CHR 0x09 then [CHR 0x5C, CHR ''t'']
      else if 32 \<le> (of_char c :: nat) \<and> (of_char c :: nat) \<le> 126 then [c]
      else [CHR 0x5C, CHR ''u'', CHR ''0'', CHR ''0'',
            hexdigit (of_char c div 16), hexdigit (of_char c)])"

definition encode_basestring_ascii :: "string \<Rightarrow> string" where
  "encode_basestring_ascii s = CHR 0x22 # concat (map escape_char s) @ [CHR 0x22]"

fun join :: "string \<Rightarrow> string list \<Rightarrow> string" where
  "join sep [] = []"
| "join sep [x] = x"
| "join sep (x # y # ys) = x @ sep @ join sep (y # ys)"

fun json_dumps :: "pyvalue \<Rightarrow> string" where
  "json_dumps PyNone = ''null''"
| "json_dumps (PyBool b) = (if b then ''true'' else ''false'')"
| "json_dumps (PyInt i) = str_int i"
| "json_dumps (PyStr s) = encode_basestring_ascii s"
| "json_dumps (PyList xs) = ''['' @ join '', '' (map json_dumps xs) @ '']''"
| "json_dumps (PyDict kvs) =
     ''{'' @ join '', '' (map (\<lambda>kv. encode_basestring_ascii (fst kv) @ '': '' @ json_dumps (snd kv)) kvs)
       @ ''}''"

subsection \<open>Configuration, requests and the remote side\<close>

record Valves =
  PROXY_URL :: string
  PROXY_API_KEY :: string
  TIMEOUT_SECONDS :: int
  DEBUG_MODE :: bool

text \<open>
  The exceptions the \<^verbatim>\<open>except\<close> clauses of \<^verbatim>\<open>pipe\<close> tell apart: an
  \<^verbatim>\<open>httpx.ConnectError\<close>, an \<^verbatim>\<open>httpx.TimeoutException\<close>, any other
  \<^verbatim>\<open>Exception\<close>, and a \<^verbatim>\<open>BaseException\<close> that is no \<^verbatim>\<open>Exception\<close>, which none of
  the three clauses matches (\<^verbatim>\<open>asyncio.CancelledError\<close> when the task is cancelled while
  it awaits the network, \<^verbatim>\<open>KeyboardInterrupt\<close>). Each carries \<^verbatim>\<open>str(e)\<close>.
\<close>

datatype failure =
    ConnectError string
  | TimeoutException string
  | OtherException string
  | OtherBaseException string

text \<open>What \<^verbatim>\<open>client.stream("POST", url, headers=headers, json=body)\<close> is given.\<close>

record request =
  req_method :: string
  req_url :: string
  req_headers :: "(string \<times> string) list"
  req_json :: pydict
  req_timeout :: int

text \<open>
  What the adapter then observes of the response: the status code; what
  \<^verbatim>\<open>await response.aread()\<close> does (it raises, or returns the body); the lines
  \<^verbatim>\<open>response.aiter_lines()\<close> delivers, and whether the iteration then ends or raises.
  A transport maps the request to a failure raised before any response, or to a response.
  The three places where the transport can fail are thus sending the request, reading an
  error body, and iterating the lines.
\<close>

record response =
  status_code :: int
  aread :: "failure + string"
  aiter_lines :: "string list"
  aiter_raises :: "failure option"

type_synonym transport = "request \<Rightarrow> failure + response"

text \<open>
  Two library functions are parameters: \<^verbatim>\<open>json.loads\<close> (\<open>None\<close> when it raises) and
  the \<^verbatim>\<open>repr\<close> of a list or dictionary, which \<^verbatim>\<open>str\<close> returns for them.
\<close>

record pylib =
  json_loads :: "string \<Rightarrow> pyvalue option"
  container_repr :: "pyvalue \<Rightarrow> string"

text \<open>\<^verbatim>\<open>f"{v}"\<close>: the text of a value inside an f-string, which is \<^verbatim>\<open>str(v)\<close>.\<close>

fun format_value :: "pylib \<Rightarrow> pyvalue \<Rightarrow> string" where
  "format_value lib (PyStr s) = s"
| "format_value lib PyNone = ''None''"
| "format_value lib (PyBool b) = (if b then ''True'' else ''False'')"
| "format_value lib (PyInt i) = str_int i"
| "format_value lib v = container_repr lib v"

text \<open>The result of running the generator to its end.\<close>

record outcome =
  chunks :: "string list"
  raised :: "failure option"
  calls :: "request list"
  body_after :: pydict

subsection \<open>The method \<^verbatim>\<open>pipe\<close>\<close>

text \<open>\<^verbatim>\<open>f"data: {json.dumps({'error': error_msg})}\n\n"\<close>, the text of every error yield.\<close>

definition sse_error :: "string \<Rightarrow> string" where
  "sse_error error_msg =
     ''data: '' @ json_dumps (PyDict [(''error'', PyStr error_msg)]) @ ''\<newline>\<newline>''"

text \<open>Lines 101 to 104: the user identity.\<close>

definition user_id_of :: "pylib \<Rightarrow> pydict option \<Rightarrow> string" where
  "user_id_of lib user =
     (case user of
        None \<Rightarrow> ''openwebui-user''
      | Some u \<Rightarrow>
          (if u \<noteq> [] \<and> map_of u ''id'' \<noteq> None
           then (case map_of u ''id'' of
                   Some ident \<Rightarrow> ''openwebui_'' @ format_value lib ident
                 | None \<Rightarrow> ''openwebui-user'')
           else ''openwebui-user''))"

text \<open>Line 128: the URL of the chat completions endpoint.\<close>

definition target_url :: "Valves \<Rightarrow> string" where
  "target_url valves = rstrip (PROXY_URL valves) CHR ''/'' @ ''/v1/chat/completions''"

text \<open>
  Lines 165 to 173: the loop over the lines of the response. An empty line is skipped, a
  line that starts with \<^verbatim>\<open>data: \<close> is yielded with two newlines after it, any other line
  is passed over.
\<close>

fun relay :: "string list \<Rightarrow> string list" where
  "relay [] = []"
| "relay (line # rest) =
     (if line = [] then relay rest
      else if startswith line ''data: '' then (line @ ''\<newline>\<newline>'') # relay rest
      else relay rest)"

text \<open>
  Lines 141 to 173, the body of \<^verbatim>\<open>async with client.stream(...) as response\<close>: the
  chunks it yields and the exception that leaves it, if any. The inner \<^verbatim>\<open>try\<close> of the
  branch for a status of 400 or more has a bare \<^verbatim>\<open>except\<close>, which catches every
  exception, so nothing raised by \<^verbatim>\<open>aread\<close> or \<^verbatim>\<open>json.loads\<close> leaves it.
\<close>

definition on_response :: "pylib \<Rightarrow> string \<Rightarrow> response \<Rightarrow> string list \<times> failure option" where
  "on_response lib url r =
     (if status_code r = 401 then
        ([sse_error ''Authentication failed. Please check your PROXY_API_KEY.''], None)
      else if status_code r = 404 then
        ([sse_error (''Memory proxy not found at '' @ url @ ''. Is the server running?'')], None)
      else if status_code r \<ge> 400 then
        (let error_msg = ''Memory proxy error: HTTP '' @ str_int (status_code r) in
         case aread r of
           Inl e \<Rightarrow> ([sse_error error_msg], None)
         | Inr error_body \<Rightarrow>
             (case json_loads lib error_body of
                None \<Rightarrow> ([sse_error error_msg], None)
              | Some error_details \<Rightarrow>
                  ([sse_error (error_msg @ '': '' @ format_value lib error_details)], None)))
      else (relay (aiter_lines r), aiter_raises r))"

text \<open>
  Lines 175 to 186: the three \<^verbatim>\<open>except\<close> clauses, tried in order. The clause that
  matches yields one error chunk and the exception is handled; an exception that none
  matches yields nothing here and goes on to the caller.
\<close>

fun on_exception :: "Valves \<Rightarrow> string \<Rightarrow> failure \<Rightarrow> string list \<times> failure option" where
  "on_exception valves url (ConnectError e) =
     ([sse_error (''Cannot connect to memory proxy at '' @ url @ ''. Is the server running?'')], None)"
| "on_exception valves url (TimeoutException e) =
     ([sse_error (''Request timed out after '' @ str_int (TIMEOUT_SECONDS valves) @ ''s'')], None)"
| "on_exception valves url (OtherException e) =
     ([sse_error (''Unexpected error: '' @ e)], None)"
| "on_exception valves url (OtherBaseException e) =
     ([], Some (OtherBaseException e))"

text \<open>
  Lines 117 to 139: the headers, the assignment \<^verbatim>\<open>body["stream"] = True\<close>, the URL,
  and the request these make up. The dictionary sent as \<^verbatim>\<open>json=body\<close> is the caller's
  own dictionary, after the assignment.
\<close>

definition outbound :: "Valves \<Rightarrow> pydict \<Rightarrow> string \<Rightarrow> request" where
  "outbound valves body user_id =
     (let headers = [(''Authorization'', ''Bearer '' @ PROXY_API_KEY valves),
                     (''Content-Type'', ''application/json''),
                     (''X-User-Id'', user_id)];
          body' = AList.update ''stream'' (PyBool True) body;
          url = target_url valves
      in \<lparr>req_method = ''POST'', req_url = url, req_headers = headers,
          req_json = body', req_timeout = TIMEOUT_SECONDS valves\<rparr>)"

text \<open>
  The whole generator. With an empty key it yields the configuration error and returns
  before the headers are built, the body is touched or the client is opened. Otherwise it
  sends one request, and an exception leaving the \<^verbatim>\<open>try\<close> block goes through the
  \<^verbatim>\<open>except\<close> clauses: what they yield follows the chunks already yielded, and what
  they do not catch leaves the generator.
\<close>

definition pipe :: "pylib \<Rightarrow> transport \<Rightarrow> Valves \<Rightarrow> pydict \<Rightarrow> pydict option \<Rightarrow> outcome" where
  "pipe lib net valves body user =
     (let user_id = user_id_of lib user in
      if PROXY_API_KEY valves = [] then
        \<lparr>chunks = [sse_error ''PROXY_API_KEY is not configured. Please set it in the Valves configuration.''],
         raised = None, calls = [], body_after = body\<rparr>
      else
        let req = outbound valves body user_id;
            url = req_url req
        in case net req of
             Inl e \<Rightarrow>
               (case on_exception valves url e of
                  (zs, ex) \<Rightarrow>
                    \<lparr>chunks = zs, raised = ex, calls = [req], body_after = req_json req\<rparr>)
           | Inr r \<Rightarrow>
               (case on_response lib url r of
                  (ys, None) \<Rightarrow>
                    \<lparr>chunks = ys, raised = None, calls = [req], body_after = req_json req\<rparr>
                | (ys, Some e) \<Rightarrow>
                    (case on_exception valves url e of
                       (zs, ex) \<Rightarrow>
                         \<lparr>chunks = ys @ zs, raised = ex, calls = [req],
                          body_after = req_json req\<rparr>)))"

subsection \<open>The spec's reading of the target URL\<close>

text \<open>
  The specification's wording of the URL rule, for comparison with \<^const>\<open>target_url\<close>:
  the base address with exactly one trailing slash stripped, if one is present.
\<close>

definition strip_one_slash :: "string \<Rightarrow> string" where
  "strip_one_slash s = (if s \<noteq> [] \<and> last s = CHR ''/'' then butlast s else s)"

subsection \<open>Example inputs\<close>

definition demo_valves :: Valves where
  "demo_valves =
     \<lparr>PROXY_URL = ''http://x/'', PROXY_API_KEY = ''secret'',
      TIMEOUT_SECONDS = 300, DEBUG_MODE = False\<rparr>"

text \<open>A stand-in for the library that parses one body, the JSON string \<^verbatim>\<open>"overloaded"\<close>.\<close>

definition demo_lib :: pylib where
  \<open>demo_lib =
     \<lparr>json_loads = (\<lambda>s. if s = ''"overloaded"'' then Some (PyStr ''overloaded'') else None),
      container_repr = (\<lambda>v. if v = PyList [] then ''[]'' else ''{}'')\<rparr>\<close>

text \<open>
  A response with the given status whose error body is \<^verbatim>\<open>"overloaded"\<close> and whose
  stream holds two data lines, each followed by an empty line, and an event line.
\<close>

definition demo_response :: "int \<Rightarrow> response" where
  \<open>demo_response code =
     \<lparr>status_code = code,
      aread = Inr ''"overloaded"'',
      aiter_lines = [''data: {"x":1}'', [], ''event: ping'', ''data: {"x":2}'', []],
      aiter_raises = None\<rparr>\<close>

definition respond :: "response \<Rightarrow> transport" where
  "respond r = (\<lambda>req. Inr r)"

definition fail_with :: "failure \<Rightarrow> transport" where
  "fail_with e = (\<lambda>req. Inl e)"

text \<open>The request the adapter builds from \<^const>\<open>demo_valves\<close>, an empty body and no user.\<close>

definition demo_request :: request where
  "demo_request =
     \<lparr>req_method = ''POST'', req_url = ''http://x/v1/chat/completions'',
      req_headers = [(''Authorization'', ''Bearer secret''),
                     (''Content-Type'', ''application/json''),
                     (''X-User-Id'', ''openwebui-user'')],
      req_json = [(''stream'', PyBool True)], req_timeout = 300\<rparr>"

section \<open>Shared lemmas\<close>

lemma relay_filter:
  "relay ls = map (\<lambda>l. l @ ''\<newline>\<newline>'') (filter (\<lambda>l. startswith l ''data: '') ls)"
  by (induction ls) (auto simp: startswith_def)

text \<open>
  The loop is incremental: what it yields for the lines read so far does not depend on
  the lines still to come.
\<close>

lemma relay_append: "relay (xs @ ys) = relay xs @ relay ys"
  by (simp add: relay_filter)

lemma outbound_fields:
  "req_url (outbound valves body uid) = target_url valves"
  "req_json (outbound valves body uid) = AList.update ''stream'' (PyBool True) body"
  "req_headers (outbound valves body uid) =
     [(''Authorization'', ''Bearer '' @ PROXY_API_KEY valves),
      (''Content-Type'', ''application/json''), (''X-User-Id'', uid)]"
  by (simp_all add: outbound_def)

lemma pipe_calls:
  "PROXY_API_KEY valves \<noteq> [] \<Longrightarrow>
     calls (pipe lib net valves body user) = [outbound valves body (user_id_of lib user)]"
  by (simp add: pipe_def Let_def split: sum.splits prod.splits option.splits)

lemma pipe_body_after:
  "PROXY_API_KEY valves \<noteq> [] \<Longrightarrow>
     body_after (pipe lib net valves body user) = AList.update ''stream'' (PyBool True) body"
  by (simp add: pipe_def Let_def outbound_fields split: sum.splits prod.splits option.splits)

lemma pipe_refused:
  assumes "PROXY_API_KEY valves \<noteq> []"
    and "net (outbound valves body (user_id_of lib user)) = Inl e"
  shows "chunks (pipe lib net valves body user) = fst (on_exception valves (target_url valves) e)"
    and "raised (pipe lib net valves body user) = snd (on_exception valves (target_url valves) e)"
  using assms by (simp_all add: pipe_def Let_def outbound_fields split: prod.splits)

lemma pipe_answered:
  assumes "PROXY_API_KEY valves \<noteq> []"
    and "net (outbound valves body (user_id_of lib user)) = Inr r"
  shows "chunks (pipe lib net valves body user) =
           fst (on_response lib (target_url valves) r) @
           (case snd (on_response lib (target_url valves) r) of
              None \<Rightarrow> [] | Some e \<Rightarrow> fst (on_exception valves (target_url valves) e))"
    and "raised (pipe lib net valves body user) =
           (case snd (on_response lib (target_url valves) r) of
              None \<Rightarrow> None | Some e \<Rightarrow> snd (on_exception valves (target_url valves) e))"
  using assms by (simp_all add: pipe_def Let_def outbound_fields split: prod.splits option.splits)

text \<open>The text of an error chunk, written out.\<close>

lemma sse_error_text:
  \<open>sse_error m = ''data: {"error": "'' @ concat (map escape_char m) @ ''"}\<newline>\<newline>''\<close>
  by (simp add: sse_error_def encode_basestring_ascii_def escape_char_def)

lemma escape_char_plain:
  assumes "c \<noteq> CHR 0x22" "c \<noteq> CHR 0x5C" "32 \<le> (of_char c :: nat)" "(of_char c :: nat) \<le> 126"
  shows "escape_char c = [c]"
proof -
  have "c \<noteq> CHR 0x08" using assms(3) by (rule contrapos_pn) simp
  moreover have "c \<noteq> CHR 0x0C" using assms(3) by (rule contrapos_pn) simp
  moreover have "c \<noteq> CHR 0x0A" using assms(3) by (rule contrapos_pn) simp
  moreover have "c \<noteq> CHR 0x0D" using assms(3) by (rule contrapos_pn) simp
  moreover have "c \<noteq> CHR 0x09" using assms(3) by (rule contrapos_pn) simp
  ultimately show ?thesis using assms by (simp add: escape_char_def)
qed

lemma escape_plain:
  assumes "\<forall>c \<in> set s. c \<noteq> CHR 0x22 \<and> c \<noteq> CHR 0x5C \<and> 32 \<le> (of_char c :: nat) \<and> (of_char c :: nat) \<le> 126"
  shows "concat (map escape_char s) = s"
  using assms
proof (induction s)
  case Nil
  then show ?case by simp
next
  case (Cons c s)
  then have "escape_char c = [c]" by (simp add: escape_char_plain)
  with Cons show ?case by simp
qed

lemma digit_plain:
  assumes "c \<in> set ''-0123456789''"
  shows "c \<noteq> CHR 0x22 \<and> c \<noteq> CHR 0x5C \<and> 32 \<le> (of_char c :: nat) \<and> (of_char c :: nat) \<le> 126"
proof -
  from assms have "c = CHR ''-'' \<or> c = CHR ''0'' \<or> c = CHR ''1'' \<or> c = CHR ''2'' \<or> c = CHR ''3''
      \<or> c = CHR ''4'' \<or> c = CHR ''5'' \<or> c = CHR ''6'' \<or> c = CHR ''7'' \<or> c = CHR ''8'' \<or> c = CHR ''9''"
    by simp
  then show ?thesis by (elim disjE) simp_all
qed

lemma set_snoc_subset: "set xs \<subseteq> S \<Longrightarrow> x \<in> S \<Longrightarrow> set (xs @ [x]) \<subseteq> S"
  by simp

lemma set_single_subset: "x \<in> S \<Longrightarrow> set [x] \<subseteq> S"
  by simp

lemma str_nat_digits: "set (str_nat n) \<subseteq> set ''0123456789''"
proof (induction n rule: str_nat.induct)
  case (1 n)
  have d: "\<And>k. k < 10 \<Longrightarrow> ''0123456789'' ! k \<in> set ''0123456789''"
    by (rule nth_mem) simp
  show ?case
  proof (cases "n < 10")
    case True
    have eq: "str_nat n = [''0123456789'' ! n]" using True by (subst str_nat.simps) simp
    show ?thesis unfolding eq by (rule set_single_subset) (rule d [OF True])
  next
    case False
    have eq: "str_nat n = str_nat (n div 10) @ [''0123456789'' ! (n mod 10)]"
      using False by (subst str_nat.simps) simp
    have x: "''0123456789'' ! (n mod 10) \<in> set ''0123456789''" by (rule d) simp
    have ih: "set (str_nat (n div 10)) \<subseteq> set ''0123456789''" by (rule 1) (rule False)
    show ?thesis unfolding eq by (rule set_snoc_subset) (rule ih, rule x)
  qed
qed

lemma escape_str_int: "concat (map escape_char (str_int i)) = str_int i"
proof (rule escape_plain, rule ballI)
  fix c assume c: "c \<in> set (str_int i)"
  have "c \<in> set ''-0123456789''"
  proof (cases "i < 0")
    case True
    with c have "c = CHR ''-'' \<or> c \<in> set (str_nat (nat (- i)))" by (simp add: str_int_def)
    then show ?thesis
    proof
      assume "c = CHR ''-''" then show ?thesis by simp
    next
      assume "c \<in> set (str_nat (nat (- i)))"
      with str_nat_digits have "c \<in> set ''0123456789''" by (rule subsetD)
      then show ?thesis by simp
    qed
  next
    case False
    with c have "c \<in> set (str_nat (nat i))" by (simp add: str_int_def)
    with str_nat_digits have "c \<in> set ''0123456789''" by (rule subsetD)
    then show ?thesis by simp
  qed
  then show "c \<noteq> CHR 0x22 \<and> c \<noteq> CHR 0x5C \<and> 32 \<le> (of_char c :: nat) \<and> (of_char c :: nat) \<le> 126"
    by (rule digit_plain)
qed

lemma sse_error_auth:
  \<open>sse_error ''Authentication failed. Please check your PROXY_API_KEY.'' =
     ''data: {"error": "Authentication failed. Please check your PROXY_API_KEY."}\<newline>\<newline>''\<close>
  by code_simp

lemma sse_error_not_found:
  \<open>sse_error (''Memory proxy not found at '' @ url @ ''. Is the server running?'') =
     ''data: {"error": "Memory proxy not found at '' @ concat (map escape_char url) @
     ''. Is the server running?"}\<newline>\<newline>''\<close>
  by (simp add: sse_error_text escape_char_def)

lemma sse_error_http:
  \<open>sse_error (''Memory proxy error: HTTP '' @ str_int n) =
     ''data: {"error": "Memory proxy error: HTTP '' @ str_int n @ ''"}\<newline>\<newline>''\<close>
  by (simp add: sse_error_text escape_str_int) (simp add: escape_char_def)

lemma sse_error_http_details:
  \<open>sse_error (''Memory proxy error: HTTP '' @ str_int n @ '': '' @ details) =
     ''data: {"error": "Memory proxy error: HTTP '' @ str_int n @ '': '' @
     concat (map escape_char details) @ ''"}\<newline>\<newline>''\<close>
  by (simp add: sse_error_text escape_str_int) (simp add: escape_char_def)

lemma sse_error_connect:
  \<open>sse_error (''Cannot connect to memory proxy at '' @ url @ ''. Is the server running?'') =
     ''data: {"error": "Cannot connect to memory proxy at '' @ concat (map escape_char url) @
     ''. Is the server running?"}\<newline>\<newline>''\<close>
  by (simp add: sse_error_text escape_char_def)

lemma sse_error_timeout:
  \<open>sse_error (''Request timed out after '' @ str_int n @ ''s'') =
     ''data: {"error": "Request timed out after '' @ str_int n @ ''s"}\<newline>\<newline>''\<close>
  by (simp add: sse_error_text escape_str_int) (simp add: escape_char_def)

lemma sse_error_unexpected:
  \<open>sse_error (''Unexpected error: '' @ d) =
     ''data: {"error": "Unexpected error: '' @ concat (map escape_char d) @ ''"}\<newline>\<newline>''\<close>
  by (simp add: sse_error_text escape_char_def)

lemma on_exception_text:
  \<open>on_exception valves url e =
     (case e of
        ConnectError d \<Rightarrow>
          ([''data: {"error": "Cannot connect to memory proxy at '' @ concat (map escape_char url) @
            ''. Is the server running?"}\<newline>\<newline>''], None)
      | TimeoutException d \<Rightarrow>
          ([''data: {"error": "Request timed out after '' @ str_int (TIMEOUT_SECONDS valves) @
            ''s"}\<newline>\<newline>''], None)
      | OtherException d \<Rightarrow>
          ([''data: {"error": "Unexpected error: '' @ concat (map escape_char d) @
            ''"}\<newline>\<newline>''], None)
      | OtherBaseException d \<Rightarrow> ([], Some (OtherBaseException d)))\<close>
  by (cases e)
     (simp_all only: on_exception.simps failure.case sse_error_connect sse_error_timeout
        sse_error_unexpected)

lemma on_response_text:
  \<open>on_response lib url r =
     (if status_code r = 401 then
        ([''data: {"error": "Authentication failed. Please check your PROXY_API_KEY."}\<newline>\<newline>''], None)
      else if status_code r = 404 then
        ([''data: {"error": "Memory proxy not found at '' @ concat (map escape_char url) @
          ''. Is the server running?"}\<newline>\<newline>''], None)
      else if 400 \<le> status_code r then
        ([''data: {"error": "Memory proxy error: HTTP '' @ str_int (status_code r) @
          (case (case aread r of Inl e \<Rightarrow> None | Inr error_body \<Rightarrow> json_loads lib error_body) of
             Some details \<Rightarrow> '': '' @ concat (map escape_char (format_value lib details))
           | None \<Rightarrow> []) @
          ''"}\<newline>\<newline>''], None)
      else (map (\<lambda>line. line @ ''\<newline>\<newline>'')
              (filter (\<lambda>line. startswith line ''data: '') (aiter_lines r)),
            aiter_raises r))\<close>
  unfolding on_response_def Let_def append_assoc relay_filter sse_error_auth sse_error_not_found
    sse_error_http sse_error_http_details
  by (simp split: sum.splits option.splits)


lemma demo_fields:
  "PROXY_URL demo_valves = ''http://x/''" "PROXY_API_KEY demo_valves = ''secret''"
  "TIMEOUT_SECONDS demo_valves = 300"
  by (simp_all add: demo_valves_def)

lemma demo_target: "target_url demo_valves = ''http://x/v1/chat/completions''"
  by (simp add: target_url_def demo_fields rstrip_def)

lemma demo_outbound: "outbound demo_valves [] (user_id_of lib None) = demo_request"
  by (simp add: outbound_def demo_target demo_fields demo_request_def user_id_of_def)

lemma demo_respond: "respond r (outbound demo_valves [] (user_id_of demo_lib None)) = Inr r"
  by (simp add: respond_def)

lemma str_int_500: "str_int 500 = ''500''"
  by code_simp

lemma str_int_503: "str_int 503 = ''503''"
  by code_simp

lemma str_int_300: "str_int 300 = ''300''"
  by code_simp

lemma demo_response_fields:
  "status_code (demo_response c) = c"
  \<open>aread (demo_response c) = Inr ''"overloaded"''\<close>
  \<open>aiter_lines (demo_response c) = [''data: {"x":1}'', [], ''event: ping'', ''data: {"x":2}'', []]\<close>
  "aiter_raises (demo_response c) = None"
  by (simp_all add: demo_response_def)

lemma demo_lib_fields:
  \<open>json_loads demo_lib ''"overloaded"'' = Some (PyStr ''overloaded'')\<close>
  "json_loads demo_lib ''<html>'' = None"
  by (simp_all add: demo_lib_def)

lemma demo_key: "PROXY_API_KEY demo_valves \<noteq> []"
  by (simp add: demo_fields)

lemma demo_target_escaped:
  "concat (map escape_char (target_url demo_valves)) = ''http://x/v1/chat/completions''"
  unfolding demo_target by code_simp

lemma demo_quoted_target:
  \<open>concat (map escape_char (target_url (demo_valves\<lparr>PROXY_URL := ''http://"x"''\<rparr>))) =
     ''http://'' @ [CHR 0x5C] @ ''"x'' @ [CHR 0x5C] @ ''"/v1/chat/completions''\<close>
  by (simp add: target_url_def rstrip_def escape_char_def)

lemma on_exception_shape:
  "(\<exists>m. on_exception valves url e = ([sse_error m], None))
   \<or> (\<exists>d. e = OtherBaseException d \<and> on_exception valves url e = ([], Some e))"
  by (cases e) auto

lemma on_response_shape:
  "(400 \<le> status_code r \<and> (\<exists>m. on_response lib url r = ([sse_error m], None)))
   \<or> (status_code r < 400 \<and> on_response lib url r = (relay (aiter_lines r), aiter_raises r))"
  by (auto simp: on_response_def Let_def split: sum.splits option.splits)

lemma pipe_shape:
  "\<exists>errs. chunks (pipe lib net valves body user) =
        map (\<lambda>line. line @ ''\<newline>\<newline>'')
          (if PROXY_API_KEY valves = [] then []
           else case net (outbound valves body (user_id_of lib user)) of
                  Inl x \<Rightarrow> []
                | Inr r \<Rightarrow> if status_code r < 400
                          then filter (\<lambda>line. startswith line ''data: '') (aiter_lines r)
                          else []) @ errs
      \<and> length errs \<le> 1 \<and> set errs \<subseteq> range sse_error"
proof (cases "PROXY_API_KEY valves = []")
  case True
  then have "chunks (pipe lib net valves body user) =
      [sse_error ''PROXY_API_KEY is not configured. Please set it in the Valves configuration.'']"
    by (simp add: pipe_def Let_def)
  with True show ?thesis by (intro exI [of _ "[sse_error _]"]) simp
next
  case key: False
  show ?thesis
  proof (cases "net (outbound valves body (user_id_of lib user))")
    case (Inl e)
    note ch = pipe_refused(1) [of valves net body lib user e, OF key Inl]
    from on_exception_shape [of valves "target_url valves" e] show ?thesis
    proof
      assume "\<exists>m. on_exception valves (target_url valves) e = ([sse_error m], None)"
      then obtain m where "on_exception valves (target_url valves) e = ([sse_error m], None)" ..
      with ch key Inl show ?thesis by (intro exI [of _ "[sse_error m]"]) simp
    next
      assume "\<exists>d. e = OtherBaseException d \<and> on_exception valves (target_url valves) e = ([], Some e)"
      then have "on_exception valves (target_url valves) e = ([], Some e)" by blast
      with ch key Inl show ?thesis by (intro exI [of _ "[]"]) simp
    qed
  next
    case (Inr r)
    note ch = pipe_answered(1) [of valves net body lib user r, OF key Inr]
    from on_response_shape [of r lib "target_url valves"] show ?thesis
    proof
      assume a: "400 \<le> status_code r \<and> (\<exists>m. on_response lib (target_url valves) r = ([sse_error m], None))"
      then obtain m where "on_response lib (target_url valves) r = ([sse_error m], None)" by blast
      with ch key Inr a show ?thesis by (intro exI [of _ "[sse_error m]"]) simp
    next
      assume a: "status_code r < 400 \<and>
        on_response lib (target_url valves) r = (relay (aiter_lines r), aiter_raises r)"
      show ?thesis
      proof (cases "aiter_raises r")
        case None
        with ch key Inr a show ?thesis by (intro exI [of _ "[]"]) (simp add: relay_filter)
      next
        case (Some e)
        from on_exception_shape [of valves "target_url valves" e] show ?thesis
        proof
          assume "\<exists>m. on_exception valves (target_url valves) e = ([sse_error m], None)"
          then obtain m where "on_exception valves (target_url valves) e = ([sse_error m], None)" ..
          with ch key Inr a Some show ?thesis
            by (intro exI [of _ "[sse_error m]"]) (simp add: relay_filter)
        next
          assume "\<exists>d. e = OtherBaseException d \<and> on_exception valves (target_url valves) e = ([], Some e)"
          then have "on_exception valves (target_url valves) e = ([], Some e)" by blast
          with ch key Inr a Some show ?thesis
            by (intro exI [of _ "[]"]) (simp add: relay_filter)
        qed
      qed
    qed
  qed
qed



lemma sse_error_missing_key:
  \<open>sse_error ''PROXY_API_KEY is not configured. Please set it in the Valves configuration.'' =
   ''data: {"error": "PROXY_API_KEY is not configured. Please set it in the Valves configuration."}\<newline>\<newline>''\<close>
  by code_simp

lemma user_id_of_cases:
  "user_id_of lib user =
     (case user of None \<Rightarrow> ''openwebui-user''
      | Some u \<Rightarrow> (case map_of u ''id'' of None \<Rightarrow> ''openwebui-user''
                   | Some ident \<Rightarrow> ''openwebui_'' @ format_value lib ident))"
  by (auto simp: user_id_of_def split: option.splits)

lemma pipe_header:
  "PROXY_API_KEY valves \<noteq> [] \<Longrightarrow>
     map (\<lambda>req. map_of (req_headers req) ''X-User-Id'') (calls (pipe lib net valves body user)) =
       [Some (user_id_of lib user)]"
  by (simp add: pipe_calls outbound_fields)

lemma endswith_single: "endswith s [c] \<longleftrightarrow> s \<noteq> [] \<and> last s = c"
proof (cases s rule: rev_cases)
  case Nil
  then show ?thesis by (simp add: endswith_def)
next
  case (snoc xs x)
  then show ?thesis by (auto simp: endswith_def)
qed

lemma rstrip_decompose:
  "\<exists>n. s = rstrip s c @ replicate n c"
proof -
  let ?P = "\<lambda>x. x = c"
  have "rev s = takeWhile ?P (rev s) @ dropWhile ?P (rev s)" by simp
  then have "s = rev (dropWhile ?P (rev s)) @ rev (takeWhile ?P (rev s))"
    by (metis rev_append rev_rev_ident)
  moreover have "\<forall>y \<in> set (rev (takeWhile ?P (rev s))). y = c"
    by (auto dest: set_takeWhileD)
  then have "replicate (length (rev (takeWhile ?P (rev s)))) c = rev (takeWhile ?P (rev s))"
    by (rule replicate_length_same)
  ultimately have "s = rstrip s c @ replicate (length (rev (takeWhile ?P (rev s)))) c"
    by (simp add: rstrip_def)
  then show ?thesis ..
qed

lemma rstrip_no_trailing: "\<not> endswith (rstrip s c) [c]"
proof -
  have "dropWhile (\<lambda>x. x = c) (rev s) \<noteq> [] \<Longrightarrow> hd (dropWhile (\<lambda>x. x = c) (rev s)) \<noteq> c"
    using hd_dropWhile [of "\<lambda>x. x = c" "rev s"] by simp
  then show ?thesis
    by (auto simp: endswith_single rstrip_def last_rev)
qed

lemma endswith_double:
  "endswith s [c, c] \<longleftrightarrow> (\<exists>t. s = t @ [c, c])"
proof
  assume "endswith s [c, c]"
  then have "s = take (length s - 2) s @ [c, c]"
    by (metis append_take_drop_id endswith_def length_Cons list.size(3) numeral_2_eq_2)
  then show "\<exists>t. s = t @ [c, c]" ..
next
  assume "\<exists>t. s = t @ [c, c]"
  then show "endswith s [c, c]" by (auto simp: endswith_def)
qed

lemma rstrip_one:
  assumes "\<not> endswith s [c, c]"
  shows "rstrip s c = (if s \<noteq> [] \<and> last s = c then butlast s else s)"
proof (cases s rule: rev_cases)
  case Nil
  then show ?thesis by (simp add: rstrip_def)
next
  case (snoc t x)
  show ?thesis
  proof (cases "x = c")
    case False
    with snoc show ?thesis by (simp add: rstrip_def)
  next
    case True
    have "t = [] \<or> last t \<noteq> c"
    proof (rule ccontr)
      assume "\<not> (t = [] \<or> last t \<noteq> c)"
      then have "t = butlast t @ [c]" by (metis append_butlast_last_id)
      with snoc True have "s = butlast t @ [c, c]" by simp
      with assms show False by (auto simp: endswith_double)
    qed
    then have "dropWhile (\<lambda>x. x = c) (rev t) = rev t"
      by (cases t rule: rev_cases) auto
    with snoc True show ?thesis by (simp add: rstrip_def)
  qed
qed

lemma startswith_append: "startswith s p \<Longrightarrow> startswith (s @ t) p"
proof -
  assume "startswith s p"
  then have a: "take (length p) s = p" by (simp add: startswith_def)
  then have "length (take (length p) s) = length p" by simp
  then have "length p \<le> length s" by simp
  with a show ?thesis by (simp add: startswith_def)
qed

lemma endswith_append: "endswith (s @ p) p"
  by (simp add: endswith_def)

lemma sse_error_startswith: "startswith (sse_error m) ''data: ''"
  by (simp add: sse_error_def startswith_def)

lemma sse_error_endswith: "endswith (sse_error m) ''\<newline>\<newline>''"
proof -
  have "sse_error m = (''data: '' @ json_dumps (PyDict [(''error'', PyStr m)])) @ ''\<newline>\<newline>''"
    by (simp add: sse_error_def)
  then show ?thesis by (simp only: endswith_append)
qed

lemma demo_broken_stream:
  \<open>chunks (pipe demo_lib
      (respond (demo_response 200\<lparr>aiter_raises := Some (OtherException ''peer closed connection'')\<rparr>))
      demo_valves [] None) =
    [''data: {"x":1}\<newline>\<newline>'', ''data: {"x":2}\<newline>\<newline>'',
     sse_error ''Unexpected error: peer closed connection'']\<close>
  using pipe_answered(1)
    [of demo_valves
        "respond (demo_response 200\<lparr>aiter_raises := Some (OtherException ''peer closed connection'')\<rparr>)"
        "[]" demo_lib None
        "demo_response 200\<lparr>aiter_raises := Some (OtherException ''peer closed connection'')\<rparr>",
     OF demo_key demo_respond]
  by (simp add: on_response_def demo_response_fields startswith_def)


section \<open>Pre-flight validation\<close>

text \<open>
  C1. Whenever \<^verbatim>\<open>PROXY_API_KEY\<close> is the empty string, the generator yields exactly one
  chunk, the server-sent-event frame whose JSON payload is an object with the one key
  \<^verbatim>\<open>error\<close> and the message "PROXY_API_KEY is not configured. Please set it in the Valves
  configuration."; then it ends, without raising, and no request has been handed to the
  HTTP client.
\<close>

theorem missing_key_one_error_chunk:
  assumes "PROXY_API_KEY valves = []"
  shows \<open>chunks (pipe lib net valves body user) =
           [''data: {"error": "PROXY_API_KEY is not configured. Please set it in the Valves configuration."}\<newline>\<newline>'']
         \<and> calls (pipe lib net valves body user) = []
         \<and> raised (pipe lib net valves body user) = None\<close>
  using assms by (simp add: pipe_def Let_def sse_error_missing_key)

theorem missing_key_one_error_chunk_witness:
  \<open>PROXY_API_KEY (demo_valves\<lparr>PROXY_API_KEY := []\<rparr>) = []
   \<and> chunks (pipe demo_lib (respond (demo_response 200)) (demo_valves\<lparr>PROXY_API_KEY := []\<rparr>)
         [(''stream'', PyBool False)] None) =
       [''data: {"error": "PROXY_API_KEY is not configured. Please set it in the Valves configuration."}\<newline>\<newline>'']
   \<and> calls (pipe demo_lib (respond (demo_response 200)) (demo_valves\<lparr>PROXY_API_KEY := []\<rparr>)
         [(''stream'', PyBool False)] None) = []\<close>
  using missing_key_one_error_chunk
    [of "demo_valves\<lparr>PROXY_API_KEY := []\<rparr>" demo_lib "respond (demo_response 200)"
        "[(''stream'', PyBool False)]" None]
  by simp

text \<open>
  C10. Whenever \<^verbatim>\<open>PROXY_API_KEY\<close> is empty, the caller's request body is the same after
  the call as before it: the generator returns before the assignment to
  \<^verbatim>\<open>body["stream"]\<close>, so no stream flag is injected.
\<close>

theorem missing_key_leaves_body:
  assumes "PROXY_API_KEY valves = []"
  shows "body_after (pipe lib net valves body user) = body"
  using assms by (simp add: pipe_def Let_def)

theorem missing_key_leaves_body_witness:
  "PROXY_API_KEY (demo_valves\<lparr>PROXY_API_KEY := []\<rparr>) = []
   \<and> body_after (pipe demo_lib (respond (demo_response 200)) (demo_valves\<lparr>PROXY_API_KEY := []\<rparr>)
         [(''model'', PyStr ''tutor-gpt'')] None) = [(''model'', PyStr ''tutor-gpt'')]
   \<and> map_of (body_after (pipe demo_lib (respond (demo_response 200)) (demo_valves\<lparr>PROXY_API_KEY := []\<rparr>)
         [(''model'', PyStr ''tutor-gpt'')] None)) ''stream'' = None"
  using missing_key_leaves_body
    [of "demo_valves\<lparr>PROXY_API_KEY := []\<rparr>" demo_lib "respond (demo_response 200)"
        "[(''model'', PyStr ''tutor-gpt'')]" None]
  by simp

section \<open>Streaming relay\<close>

text \<open>
  C2. When a request is sent and answered with a status below 400 (every success status
  is), and the stream of lines ends normally, the chunks are, in the order of the lines
  and one for one, the lines that begin with \<^verbatim>\<open>data: \<close>, each unchanged but for two
  newlines appended; empty lines and all other lines yield nothing.
\<close>

theorem success_relays_data_lines:
  assumes "PROXY_API_KEY valves \<noteq> []"
    and "net (outbound valves body (user_id_of lib user)) = Inr r"
    and "status_code r < 400"
    and "aiter_raises r = None"
  shows "chunks (pipe lib net valves body user) =
           map (\<lambda>line. line @ ''\<newline>\<newline>'')
             (filter (\<lambda>line. startswith line ''data: '') (aiter_lines r))"
  using assms by (simp add: pipe_answered on_response_def relay_filter)

theorem success_relays_data_lines_witness:
  \<open>PROXY_API_KEY demo_valves \<noteq> []
   \<and> respond (demo_response 200) (outbound demo_valves [] (user_id_of demo_lib None)) = Inr (demo_response 200)
   \<and> status_code (demo_response 200) < 400
   \<and> aiter_raises (demo_response 200) = None
   \<and> chunks (pipe demo_lib (respond (demo_response 200)) demo_valves [] None) =
       [''data: {"x":1}\<newline>\<newline>'', ''data: {"x":2}\<newline>\<newline>'']\<close>
  using success_relays_data_lines
    [of demo_valves "respond (demo_response 200)" "[]" demo_lib None "demo_response 200"]
  by (simp add: demo_fields respond_def demo_response_def startswith_def)

section \<open>Response status handling\<close>

text \<open>
  C3. When a request is sent and answered, the status decides before any of the body is
  read. Status 401 yields the one error chunk, the frame \<^verbatim>\<open>data: {"error": "..."}\<close> and a
  blank line, with the message "Authentication failed. Please check your PROXY_API_KEY.",
  and ends. Status 404 yields the one error chunk with the message "Memory proxy not
  found at <url>. Is the server running?", naming the target URL, and ends. Any other
  status of 400 or more yields one error chunk and ends: "Memory proxy error: HTTP
  <status>", followed by a colon and the parsed details when the body is read and parsed
  as JSON, and alone when reading or parsing fails. Every other status goes on to the
  streaming loop. The text of each chunk is written out; inside the JSON string the URL
  and the details are escaped as \<^verbatim>\<open>json.dumps\<close> escapes them, which leaves a text of
  printable ASCII characters without quote and backslash as it is.
\<close>

theorem status_handling:
  assumes "PROXY_API_KEY valves \<noteq> []"
    and "net (outbound valves body (user_id_of lib user)) = Inr r"
  shows \<open>(status_code r = 401 \<longrightarrow>
            chunks (pipe lib net valves body user) =
              [''data: {"error": "Authentication failed. Please check your PROXY_API_KEY."}\<newline>\<newline>''])
       \<and> (status_code r = 404 \<longrightarrow>
            chunks (pipe lib net valves body user) =
              [''data: {"error": "Memory proxy not found at '' @
               concat (map escape_char (target_url valves)) @
               ''. Is the server running?"}\<newline>\<newline>''])
       \<and> (400 \<le> status_code r \<and> status_code r \<noteq> 401 \<and> status_code r \<noteq> 404 \<longrightarrow>
            chunks (pipe lib net valves body user) =
              [''data: {"error": "Memory proxy error: HTTP '' @ str_int (status_code r) @
               (case (case aread r of Inl e \<Rightarrow> None | Inr error_body \<Rightarrow> json_loads lib error_body) of
                  Some details \<Rightarrow> '': '' @ concat (map escape_char (format_value lib details))
                | None \<Rightarrow> []) @
               ''"}\<newline>\<newline>''])
       \<and> (400 \<le> status_code r \<longrightarrow> raised (pipe lib net valves body user) = None)
       \<and> (status_code r < 400 \<longrightarrow>
            chunks (pipe lib net valves body user) =
              map (\<lambda>line. line @ ''\<newline>\<newline>'')
                (filter (\<lambda>line. startswith line ''data: '') (aiter_lines r)) @
              (case aiter_raises r of
                 None \<Rightarrow> []
               | Some (ConnectError d) \<Rightarrow>
                   [''data: {"error": "Cannot connect to memory proxy at '' @
                    concat (map escape_char (target_url valves)) @
                    ''. Is the server running?"}\<newline>\<newline>'']
               | Some (TimeoutException d) \<Rightarrow>
                   [''data: {"error": "Request timed out after '' @
                    str_int (TIMEOUT_SECONDS valves) @ ''s"}\<newline>\<newline>'']
               | Some (OtherException d) \<Rightarrow>
                   [''data: {"error": "Unexpected error: '' @ concat (map escape_char d) @
                    ''"}\<newline>\<newline>'']
               | Some (OtherBaseException d) \<Rightarrow> []))
       \<and> ((\<forall>c \<in> set s. c \<noteq> CHR 0x22 \<and> c \<noteq> CHR 0x5C \<and> 32 \<le> (of_char c :: nat)
               \<and> (of_char c :: nat) \<le> 126) \<longrightarrow>
            concat (map escape_char s) = s)\<close>
proof (intro conjI impI)
  note ch = pipe_answered(1) [of valves net body lib user r, OF assms]
  note ra = pipe_answered(2) [of valves net body lib user r, OF assms]
  show \<open>chunks (pipe lib net valves body user) =
      [''data: {"error": "Authentication failed. Please check your PROXY_API_KEY."}\<newline>\<newline>'']\<close>
    if "status_code r = 401"
    using that by (simp add: ch on_response_text)
  show \<open>chunks (pipe lib net valves body user) =
      [''data: {"error": "Memory proxy not found at '' @
       concat (map escape_char (target_url valves)) @
       ''. Is the server running?"}\<newline>\<newline>'']\<close>
    if "status_code r = 404"
    using that by (simp add: ch on_response_text)
  show \<open>chunks (pipe lib net valves body user) =
      [''data: {"error": "Memory proxy error: HTTP '' @ str_int (status_code r) @
       (case (case aread r of Inl e \<Rightarrow> None | Inr error_body \<Rightarrow> json_loads lib error_body) of
          Some details \<Rightarrow> '': '' @ concat (map escape_char (format_value lib details))
        | None \<Rightarrow> []) @
       ''"}\<newline>\<newline>'']\<close>
    if "400 \<le> status_code r \<and> status_code r \<noteq> 401 \<and> status_code r \<noteq> 404"
    using that by (simp add: ch on_response_text)
  show "raised (pipe lib net valves body user) = None" if "400 \<le> status_code r"
    using that by (simp add: ra on_response_text)
  show \<open>chunks (pipe lib net valves body user) =
      map (\<lambda>line. line @ ''\<newline>\<newline>'')
        (filter (\<lambda>line. startswith line ''data: '') (aiter_lines r)) @
      (case aiter_raises r of
         None \<Rightarrow> []
       | Some (ConnectError d) \<Rightarrow>
           [''data: {"error": "Cannot connect to memory proxy at '' @
            concat (map escape_char (target_url valves)) @
            ''. Is the server running?"}\<newline>\<newline>'']
       | Some (TimeoutException d) \<Rightarrow>
           [''data: {"error": "Request timed out after '' @
            str_int (TIMEOUT_SECONDS valves) @ ''s"}\<newline>\<newline>'']
       | Some (OtherException d) \<Rightarrow>
           [''data: {"error": "Unexpected error: '' @ concat (map escape_char d) @
            ''"}\<newline>\<newline>'']
       | Some (OtherBaseException d) \<Rightarrow> [])\<close>
    if "status_code r < 400"
    using that
    by (simp add: ch on_response_text on_exception_text split: option.splits failure.splits)
  show "concat (map escape_char s) = s"
    if "\<forall>c \<in> set s. c \<noteq> CHR 0x22 \<and> c \<noteq> CHR 0x5C \<and> 32 \<le> (of_char c :: nat)
               \<and> (of_char c :: nat) \<le> 126"
    using that by (rule escape_plain)
qed

theorem status_handling_witness:
  \<open>chunks (pipe demo_lib (respond (demo_response 401)) demo_valves [] None) =
      [''data: {"error": "Authentication failed. Please check your PROXY_API_KEY."}\<newline>\<newline>'']
   \<and> chunks (pipe demo_lib (respond (demo_response 404)) demo_valves [] None) =
      [''data: {"error": "Memory proxy not found at http://x/v1/chat/completions. Is the server running?"}\<newline>\<newline>'']
   \<and> chunks (pipe demo_lib (respond (demo_response 404)) (demo_valves\<lparr>PROXY_URL := ''http://"x"''\<rparr>) [] None) =
      [''data: {"error": "Memory proxy not found at http://'' @ [CHR 0x5C] @ ''"x'' @ [CHR 0x5C] @
       ''"/v1/chat/completions. Is the server running?"}\<newline>\<newline>'']
   \<and> chunks (pipe demo_lib (respond (demo_response 503)) demo_valves [] None) =
      [''data: {"error": "Memory proxy error: HTTP 503: overloaded"}\<newline>\<newline>'']
   \<and> chunks (pipe demo_lib (respond (demo_response 500\<lparr>aread := Inr ''<html>''\<rparr>)) demo_valves [] None) =
      [''data: {"error": "Memory proxy error: HTTP 500"}\<newline>\<newline>'']
   \<and> chunks (pipe demo_lib (respond (demo_response 200)) demo_valves [] None) =
      [''data: {"x":1}\<newline>\<newline>'', ''data: {"x":2}\<newline>\<newline>'']\<close>
proof -
  have \<open>chunks (pipe demo_lib (respond (demo_response 401)) demo_valves [] None) =
      [''data: {"error": "Authentication failed. Please check your PROXY_API_KEY."}\<newline>\<newline>'']\<close>
    using status_handling [of demo_valves "respond (demo_response 401)" "[]" demo_lib None
        "demo_response 401" "[]", OF demo_key demo_respond]
    by (simp add: demo_response_fields)
  moreover have \<open>chunks (pipe demo_lib (respond (demo_response 404)) demo_valves [] None) =
      [''data: {"error": "Memory proxy not found at http://x/v1/chat/completions. Is the server running?"}\<newline>\<newline>'']\<close>
    using status_handling [of demo_valves "respond (demo_response 404)" "[]" demo_lib None
        "demo_response 404" "[]", OF demo_key demo_respond]
    by (simp add: demo_response_fields demo_target_escaped)
  moreover have \<open>chunks (pipe demo_lib (respond (demo_response 404))
        (demo_valves\<lparr>PROXY_URL := ''http://"x"''\<rparr>) [] None) =
      [''data: {"error": "Memory proxy not found at http://'' @ [CHR 0x5C] @ ''"x'' @ [CHR 0x5C] @
       ''"/v1/chat/completions. Is the server running?"}\<newline>\<newline>'']\<close>
    using status_handling [of "demo_valves\<lparr>PROXY_URL := ''http://\"x\"''\<rparr>"
        "respond (demo_response 404)" "[]" demo_lib None "demo_response 404" "[]"]
    by (simp add: demo_response_fields demo_quoted_target demo_fields respond_def)
  moreover have \<open>chunks (pipe demo_lib (respond (demo_response 503)) demo_valves [] None) =
      [''data: {"error": "Memory proxy error: HTTP 503: overloaded"}\<newline>\<newline>'']\<close>
    using status_handling [of demo_valves "respond (demo_response 503)" "[]" demo_lib None
        "demo_response 503" "[]", OF demo_key demo_respond]
    by (simp add: demo_response_fields demo_lib_fields str_int_503 escape_char_def)
  moreover have \<open>chunks (pipe demo_lib (respond (demo_response 500\<lparr>aread := Inr ''<html>''\<rparr>)) demo_valves [] None) =
      [''data: {"error": "Memory proxy error: HTTP 500"}\<newline>\<newline>'']\<close>
    using status_handling [of demo_valves "respond (demo_response 500\<lparr>aread := Inr ''<html>''\<rparr>)"
        "[]" demo_lib None "demo_response 500\<lparr>aread := Inr ''<html>''\<rparr>" "[]", OF demo_key demo_respond]
    by (simp add: demo_response_fields demo_lib_fields str_int_500)
  moreover have \<open>chunks (pipe demo_lib (respond (demo_response 200)) demo_valves [] None) =
      [''data: {"x":1}\<newline>\<newline>'', ''data: {"x":2}\<newline>\<newline>'']\<close>
    using status_handling [of demo_valves "respond (demo_response 200)" "[]" demo_lib None
        "demo_response 200" "[]", OF demo_key demo_respond]
    by (simp add: demo_response_fields startswith_def)
  ultimately show ?thesis by (intro conjI)
qed

section \<open>Network failures\<close>

text \<open>
  C4, as the claim states it, fails: it promises for every timeout during the call a
  chunk with the message "Request timed out after <TIMEOUT_SECONDS>s". A timeout raised
  while the body of a 500 response is being read is caught by the bare \<^verbatim>\<open>except\<close> of
  the status branch, and the one chunk carries "Memory proxy error: HTTP 500" instead.
\<close>

theorem timeout_while_reading_error_body_counterexample:
  \<open>chunks (pipe demo_lib
      (respond (demo_response 500\<lparr>aread := Inl (TimeoutException ''read timed out'')\<rparr>))
      demo_valves [] None) = [''data: {"error": "Memory proxy error: HTTP 500"}\<newline>\<newline>'']
   \<and> chunks (pipe demo_lib
      (respond (demo_response 500\<lparr>aread := Inl (TimeoutException ''read timed out'')\<rparr>))
      demo_valves [] None) \<noteq> [''data: {"error": "Request timed out after 300s"}\<newline>\<newline>'']\<close>
  using pipe_answered(1)
    [of demo_valves "respond (demo_response 500\<lparr>aread := Inl (TimeoutException ''read timed out'')\<rparr>)"
        "[]" demo_lib None "demo_response 500\<lparr>aread := Inl (TimeoutException ''read timed out'')\<rparr>",
     OF demo_key demo_respond]
  by (simp add: on_response_text demo_response_fields str_int_500)

text \<open>
  C4, amended. Once the key is set, exactly one request is made (no retry). A connection
  failure, a timeout or any other \<^verbatim>\<open>Exception\<close> raised when the request is sent yields
  exactly one chunk, an error chunk; raised while the lines of a response with a status
  below 400 are streamed, it yields the chunks relayed so far and then exactly one error
  chunk; in both cases the sequence ends there and nothing is raised. The chunk is the
  frame \<^verbatim>\<open>data: {"error": "..."}\<close> and a blank line, with the message "Cannot connect to
  memory proxy at <url>. Is the server running?" for a connection failure, "Request timed
  out after <TIMEOUT_SECONDS>s" for a timeout, and "Unexpected error: <description>" for
  any other failure. A failure raised while the body of an error response (a status of
  400 or more other than 401 and 404) is read yields the one chunk with the message
  "Memory proxy error: HTTP <status>". The URL and the description are escaped as
  \<^verbatim>\<open>json.dumps\<close> escapes them, which leaves a text of printable ASCII characters
  without quote and backslash as it is.
\<close>

theorem failure_yields_one_error_chunk:
  assumes "PROXY_API_KEY valves \<noteq> []"
  shows \<open>calls (pipe lib net valves body user) = [outbound valves body (user_id_of lib user)]
       \<and> ((net (outbound valves body (user_id_of lib user)) = Inl e
             \<or> (net (outbound valves body (user_id_of lib user)) = Inr r \<and> status_code r < 400
                 \<and> aiter_raises r = Some e))
            \<and> (e = ConnectError d \<or> e = TimeoutException d \<or> e = OtherException d) \<longrightarrow>
            chunks (pipe lib net valves body user) =
              (case net (outbound valves body (user_id_of lib user)) of
                 Inl x \<Rightarrow> []
               | Inr r' \<Rightarrow> map (\<lambda>line. line @ ''\<newline>\<newline>'')
                           (filter (\<lambda>line. startswith line ''data: '') (aiter_lines r'))) @
              [''data: {"error": "'' @
               (if e = ConnectError d then
                  ''Cannot connect to memory proxy at '' @
                  concat (map escape_char (target_url valves)) @ ''. Is the server running?''
                else if e = TimeoutException d then
                  ''Request timed out after '' @ str_int (TIMEOUT_SECONDS valves) @ ''s''
                else ''Unexpected error: '' @ concat (map escape_char d)) @
               ''"}\<newline>\<newline>'']
            \<and> raised (pipe lib net valves body user) = None)
       \<and> (net (outbound valves body (user_id_of lib user)) = Inr r \<and> 400 \<le> status_code r
            \<and> status_code r \<noteq> 401 \<and> status_code r \<noteq> 404 \<and> aread r = Inl e \<longrightarrow>
            chunks (pipe lib net valves body user) =
              [''data: {"error": "Memory proxy error: HTTP '' @ str_int (status_code r) @
               ''"}\<newline>\<newline>'']
            \<and> raised (pipe lib net valves body user) = None)
       \<and> ((\<forall>c \<in> set s. c \<noteq> CHR 0x22 \<and> c \<noteq> CHR 0x5C \<and> 32 \<le> (of_char c :: nat)
               \<and> (of_char c :: nat) \<le> 126) \<longrightarrow>
            concat (map escape_char s) = s)\<close>
proof -
  let ?sent = "outbound valves body (user_id_of lib user)"
  let ?P = "pipe lib net valves body user"
  let ?frame = \<open>[''data: {"error": "'' @
               (if e = ConnectError d then
                  ''Cannot connect to memory proxy at '' @
                  concat (map escape_char (target_url valves)) @ ''. Is the server running?''
                else if e = TimeoutException d then
                  ''Request timed out after '' @ str_int (TIMEOUT_SECONDS valves) @ ''s''
                else ''Unexpected error: '' @ concat (map escape_char d)) @
               ''"}\<newline>\<newline>'']\<close>
  have handled: "on_exception valves (target_url valves) e = (?frame, None)"
    if "e = ConnectError d \<or> e = TimeoutException d \<or> e = OtherException d"
    using that by (auto simp add: on_exception_text)
  have one: "calls ?P = [?sent]"
    using assms by (rule pipe_calls)
  have two: "chunks ?P =
      (case net ?sent of
         Inl x \<Rightarrow> []
       | Inr r' \<Rightarrow> map (\<lambda>line. line @ ''\<newline>\<newline>'')
                   (filter (\<lambda>line. startswith line ''data: '') (aiter_lines r'))) @ ?frame
      \<and> raised ?P = None"
    if f: "(net ?sent = Inl e \<or> (net ?sent = Inr r \<and> status_code r < 400 \<and> aiter_raises r = Some e))
         \<and> (e = ConnectError d \<or> e = TimeoutException d \<or> e = OtherException d)"
  proof -
    from f have h: "on_exception valves (target_url valves) e = (?frame, None)"
      by (intro handled) simp
    from f have "net ?sent = Inl e \<or> (net ?sent = Inr r \<and> status_code r < 400 \<and> aiter_raises r = Some e)"
      by simp
    then show ?thesis
    proof
      assume n: "net ?sent = Inl e"
      show ?thesis
        using pipe_refused [of valves net body lib user e, OF assms n]
        by (simp only: h n fst_conv snd_conv sum.case append_Nil simp_thms)
    next
      assume n: "net ?sent = Inr r \<and> status_code r < 400 \<and> aiter_raises r = Some e"
      then have o: "on_response lib (target_url valves) r =
          (map (\<lambda>line. line @ ''\<newline>\<newline>'')
             (filter (\<lambda>line. startswith line ''data: '') (aiter_lines r)), Some e)"
        by (simp add: on_response_text)
      from n have n': "net ?sent = Inr r" by simp
      show ?thesis
        using pipe_answered [of valves net body lib user r, OF assms n']
        by (simp only: o h n' fst_conv snd_conv sum.case option.case simp_thms)
    qed
  qed
  have three: "chunks ?P =
        [''data: {\"error\": \"Memory proxy error: HTTP '' @ str_int (status_code r) @
         ''\"}\<newline>\<newline>'']
      \<and> raised ?P = None"
    if f: "net ?sent = Inr r \<and> 400 \<le> status_code r
         \<and> status_code r \<noteq> 401 \<and> status_code r \<noteq> 404 \<and> aread r = Inl e"
    using f pipe_answered [of valves net body lib user r, OF assms]
    by (simp add: on_response_text)
  have four: "concat (map escape_char s) = s"
    if "\<forall>c \<in> set s. c \<noteq> CHR 0x22 \<and> c \<noteq> CHR 0x5C \<and> 32 \<le> (of_char c :: nat)
               \<and> (of_char c :: nat) \<le> 126"
    using that by (rule escape_plain)
  from one two three four show ?thesis by blast
qed

theorem failure_yields_one_error_chunk_witness:
  \<open>calls (pipe demo_lib (fail_with (ConnectError ''refused'')) demo_valves [] None) = [demo_request]
   \<and> chunks (pipe demo_lib (fail_with (ConnectError ''refused'')) demo_valves [] None) =
      [''data: {"error": "Cannot connect to memory proxy at http://x/v1/chat/completions. Is the server running?"}\<newline>\<newline>'']
   \<and> chunks (pipe demo_lib (fail_with (TimeoutException ''slow'')) demo_valves [] None) =
      [''data: {"error": "Request timed out after 300s"}\<newline>\<newline>'']
   \<and> chunks (pipe demo_lib
        (respond (demo_response 200\<lparr>aiter_raises := Some (OtherException ''peer said "bye"'')\<rparr>))
        demo_valves [] None) =
      [''data: {"x":1}\<newline>\<newline>'', ''data: {"x":2}\<newline>\<newline>'',
       ''data: {"error": "Unexpected error: peer said '' @ [CHR 0x5C] @ ''"bye'' @ [CHR 0x5C] @
       ''""}\<newline>\<newline>'']
   \<and> chunks (pipe demo_lib
        (respond (demo_response 500\<lparr>aread := Inl (TimeoutException ''read timed out'')\<rparr>))
        demo_valves [] None) =
      [''data: {"error": "Memory proxy error: HTTP 500"}\<newline>\<newline>'']\<close>
proof -
  have \<open>calls (pipe demo_lib (fail_with (ConnectError ''refused'')) demo_valves [] None) = [demo_request]
     \<and> chunks (pipe demo_lib (fail_with (ConnectError ''refused'')) demo_valves [] None) =
        [''data: {"error": "Cannot connect to memory proxy at http://x/v1/chat/completions. Is the server running?"}\<newline>\<newline>'']\<close>
    using failure_yields_one_error_chunk
      [OF demo_key, of demo_lib "fail_with (ConnectError ''refused'')" "[]" None
         "ConnectError ''refused''" "demo_response 200" "''refused''" "[]"]
    by (simp add: fail_with_def demo_outbound demo_target_escaped)
  moreover have \<open>chunks (pipe demo_lib (fail_with (TimeoutException ''slow'')) demo_valves [] None) =
      [''data: {"error": "Request timed out after 300s"}\<newline>\<newline>'']\<close>
    using failure_yields_one_error_chunk
      [OF demo_key, of demo_lib "fail_with (TimeoutException ''slow'')" "[]" None
         "TimeoutException ''slow''" "demo_response 200" "''slow''" "[]"]
    by (simp add: fail_with_def demo_fields str_int_300)
  moreover have \<open>chunks (pipe demo_lib
        (respond (demo_response 200\<lparr>aiter_raises := Some (OtherException ''peer said "bye"'')\<rparr>))
        demo_valves [] None) =
      [''data: {"x":1}\<newline>\<newline>'', ''data: {"x":2}\<newline>\<newline>'',
       ''data: {"error": "Unexpected error: peer said '' @ [CHR 0x5C] @ ''"bye'' @ [CHR 0x5C] @
       ''""}\<newline>\<newline>'']\<close>
    using failure_yields_one_error_chunk
      [OF demo_key, of demo_lib
         \<open>respond (demo_response 200\<lparr>aiter_raises := Some (OtherException ''peer said "bye"'')\<rparr>)\<close>
         "[]" None \<open>OtherException ''peer said "bye"''\<close>
         \<open>demo_response 200\<lparr>aiter_raises := Some (OtherException ''peer said "bye"'')\<rparr>\<close>
         \<open>''peer said "bye"''\<close> "[]"]
    by (simp add: respond_def demo_response_fields startswith_def escape_char_def)
  moreover have \<open>chunks (pipe demo_lib
        (respond (demo_response 500\<lparr>aread := Inl (TimeoutException ''read timed out'')\<rparr>))
        demo_valves [] None) =
      [''data: {"error": "Memory proxy error: HTTP 500"}\<newline>\<newline>'']\<close>
    using failure_yields_one_error_chunk
      [OF demo_key, of demo_lib
         "respond (demo_response 500\<lparr>aread := Inl (TimeoutException ''read timed out'')\<rparr>)"
         "[]" None "TimeoutException ''read timed out''"
         "demo_response 500\<lparr>aread := Inl (TimeoutException ''read timed out'')\<rparr>"
         "''read timed out''" "[]"]
    by (simp add: respond_def demo_response_fields str_int_500)
  ultimately show ?thesis by (intro conjI) simp_all
qed

section \<open>The outbound request\<close>

text \<open>
  C5. Whenever a request is sent, its \<^verbatim>\<open>X-User-Id\<close> header is "openwebui_" followed by
  the identifier when the user context is present and has an \<^verbatim>\<open>id\<close> field (the
  identifier as an f-string renders it, which is the identifier itself when it is a
  string), and "openwebui-user" when the user context is absent or has no \<^verbatim>\<open>id\<close>
  field.
\<close>

theorem user_id_header:
  assumes "PROXY_API_KEY valves \<noteq> []"
  shows "(\<forall>u ident. user = Some u \<and> map_of u ''id'' = Some ident \<longrightarrow>
            map (\<lambda>req. map_of (req_headers req) ''X-User-Id'') (calls (pipe lib net valves body user)) =
              [Some (''openwebui_'' @ format_value lib ident)])
       \<and> (\<forall>u s. user = Some u \<and> map_of u ''id'' = Some (PyStr s) \<longrightarrow>
            map (\<lambda>req. map_of (req_headers req) ''X-User-Id'') (calls (pipe lib net valves body user)) =
              [Some (''openwebui_'' @ s)])
       \<and> (user = None \<or> (\<exists>u. user = Some u \<and> map_of u ''id'' = None) \<longrightarrow>
            map (\<lambda>req. map_of (req_headers req) ''X-User-Id'') (calls (pipe lib net valves body user)) =
              [Some ''openwebui-user''])"
  using assms by (auto simp: pipe_header user_id_of_cases)

theorem user_id_header_witness:
  "map (\<lambda>req. map_of (req_headers req) ''X-User-Id'')
      (calls (pipe demo_lib (respond (demo_response 200)) demo_valves [] (Some [(''id'', PyStr ''abc123'')]))) =
      [Some ''openwebui_abc123'']
   \<and> map (\<lambda>req. map_of (req_headers req) ''X-User-Id'')
      (calls (pipe demo_lib (respond (demo_response 200)) demo_valves [] None)) =
      [Some ''openwebui-user'']
   \<and> map (\<lambda>req. map_of (req_headers req) ''X-User-Id'')
      (calls (pipe demo_lib (respond (demo_response 200)) demo_valves []
         (Some [(''name'', PyStr ''Ada'')]))) =
      [Some ''openwebui-user'']"
  using user_id_header [OF demo_key, of "Some [(''id'', PyStr ''abc123'')]" demo_lib
      "respond (demo_response 200)" "[]"]
    user_id_header [OF demo_key, of None demo_lib "respond (demo_response 200)" "[]"]
    user_id_header [OF demo_key, of "Some [(''name'', PyStr ''Ada'')]" demo_lib
      "respond (demo_response 200)" "[]"]
  by simp

text \<open>
  C6. Whenever a request is sent, whatever the \<^verbatim>\<open>stream\<close> field of the caller's body
  was (true, false, or absent), the body sent has \<^verbatim>\<open>stream\<close> equal to true, the
  caller's dictionary after the call is that same body, and every other field is as it
  was.
\<close>

theorem stream_forced_true:
  assumes "PROXY_API_KEY valves \<noteq> []"
  shows "map (\<lambda>req. map_of (req_json req) ''stream'') (calls (pipe lib net valves body user)) =
           [Some (PyBool True)]
       \<and> map req_json (calls (pipe lib net valves body user)) = [body_after (pipe lib net valves body user)]
       \<and> map_of (body_after (pipe lib net valves body user)) ''stream'' = Some (PyBool True)
       \<and> (\<forall>k. k \<noteq> ''stream'' \<longrightarrow>
            map_of (body_after (pipe lib net valves body user)) k = map_of body k)"
  using assms by (simp add: pipe_calls pipe_body_after outbound_fields update_conv')

theorem stream_forced_true_witness:
  "map_of (body_after (pipe demo_lib (respond (demo_response 200)) demo_valves
      [(''model'', PyStr ''tutor-gpt''), (''stream'', PyBool False)] None)) ''stream'' = Some (PyBool True)
   \<and> map_of (body_after (pipe demo_lib (respond (demo_response 200)) demo_valves
      [(''stream'', PyBool True)] None)) ''stream'' = Some (PyBool True)
   \<and> map_of (body_after (pipe demo_lib (respond (demo_response 200)) demo_valves
      [(''model'', PyStr ''tutor-gpt'')] None)) ''stream'' = Some (PyBool True)
   \<and> map_of (body_after (pipe demo_lib (respond (demo_response 200)) demo_valves
      [(''model'', PyStr ''tutor-gpt'')] None)) ''model'' = Some (PyStr ''tutor-gpt'')
   \<and> map req_json (calls (pipe demo_lib (respond (demo_response 200)) demo_valves
      [(''model'', PyStr ''tutor-gpt''), (''stream'', PyBool False)] None)) =
      [[(''model'', PyStr ''tutor-gpt''), (''stream'', PyBool True)]]"
  using stream_forced_true [OF demo_key, of demo_lib "respond (demo_response 200)"
      "[(''model'', PyStr ''tutor-gpt''), (''stream'', PyBool False)]" None]
    stream_forced_true [OF demo_key, of demo_lib "respond (demo_response 200)"
      "[(''stream'', PyBool True)]" None]
    stream_forced_true [OF demo_key, of demo_lib "respond (demo_response 200)"
      "[(''model'', PyStr ''tutor-gpt'')]" None]
  by (simp add: pipe_body_after [OF demo_key])

text \<open>
  C7, as the claim states it, fails: for a base address that ends in two slashes the
  adapter strips both, where the claim strips exactly one.
\<close>

theorem target_url_double_slash_counterexample:
  "target_url (demo_valves\<lparr>PROXY_URL := ''http://x//''\<rparr>) = ''http://x/v1/chat/completions''
   \<and> strip_one_slash (PROXY_URL (demo_valves\<lparr>PROXY_URL := ''http://x//''\<rparr>)) @ ''/v1/chat/completions''
       = ''http://x//v1/chat/completions''
   \<and> target_url (demo_valves\<lparr>PROXY_URL := ''http://x//''\<rparr>) \<noteq>
       strip_one_slash (PROXY_URL (demo_valves\<lparr>PROXY_URL := ''http://x//''\<rparr>)) @ ''/v1/chat/completions''"
  by (simp add: target_url_def rstrip_def strip_one_slash_def)

text \<open>
  C7, amended. For every configured \<^verbatim>\<open>PROXY_URL\<close>, the target URL is \<^verbatim>\<open>PROXY_URL\<close>
  with all its trailing slashes stripped, followed by "/v1/chat/completions". When
  \<^verbatim>\<open>PROXY_URL\<close> does not end in two slashes this is \<^verbatim>\<open>PROXY_URL\<close> with exactly one
  trailing slash stripped, if one is present; so "http://x/" gives
  "http://x/v1/chat/completions", with no double slash.
\<close>

theorem target_url_strips_trailing_slashes:
  "(\<exists>base n. PROXY_URL valves = base @ replicate n CHR ''/'' \<and> \<not> endswith base ''/''
       \<and> target_url valves = base @ ''/v1/chat/completions'')
   \<and> (\<not> endswith (PROXY_URL valves) ''//'' \<longrightarrow>
        target_url valves = strip_one_slash (PROXY_URL valves) @ ''/v1/chat/completions'')"
proof
  obtain n where "PROXY_URL valves = rstrip (PROXY_URL valves) CHR ''/'' @ replicate n CHR ''/''"
    using rstrip_decompose by blast
  then show "\<exists>base n. PROXY_URL valves = base @ replicate n CHR ''/'' \<and> \<not> endswith base ''/''
       \<and> target_url valves = base @ ''/v1/chat/completions''"
    using rstrip_no_trailing [of "PROXY_URL valves" "CHR ''/''"]
    unfolding target_url_def by blast
next
  show "\<not> endswith (PROXY_URL valves) ''//'' \<longrightarrow>
        target_url valves = strip_one_slash (PROXY_URL valves) @ ''/v1/chat/completions''"
    by (simp add: target_url_def strip_one_slash_def rstrip_one)
qed

theorem target_url_strips_trailing_slashes_witness:
  "\<not> endswith (PROXY_URL demo_valves) ''//''
   \<and> PROXY_URL demo_valves = ''http://x/''
   \<and> target_url demo_valves = ''http://x/v1/chat/completions''"
  using target_url_strips_trailing_slashes [of demo_valves]
  by (simp add: demo_fields endswith_def strip_one_slash_def)

section \<open>The shape of the output\<close>




text \<open>
  C9. Every chunk the generator yields, relayed or error, on every path, begins with
  \<^verbatim>\<open>data: \<close> and ends with two newlines.
\<close>

theorem every_chunk_is_sse_frame:
  "\<forall>c \<in> set (chunks (pipe lib net valves body user)).
     startswith c ''data: '' \<and> endswith c ''\<newline>\<newline>''"
proof
  fix c assume c: "c \<in> set (chunks (pipe lib net valves body user))"
  let ?ls = "if PROXY_API_KEY valves = [] then []
           else case net (outbound valves body (user_id_of lib user)) of
                  Inl x \<Rightarrow> []
                | Inr r \<Rightarrow> if status_code r < 400
                          then filter (\<lambda>line. startswith line ''data: '') (aiter_lines r)
                          else []"
  obtain errs where s: "chunks (pipe lib net valves body user) =
        map (\<lambda>line. line @ ''\<newline>\<newline>'') ?ls @ errs"
      "length errs \<le> 1"
      "set errs \<subseteq> range sse_error"
    using pipe_shape [of lib net valves body user] by (elim exE conjE) (rule that, assumption+)
  have ls: "\<forall>l \<in> set ?ls. startswith l ''data: ''"
    by (auto split: sum.splits)
  from c have "c \<in> set (map (\<lambda>line. line @ ''\<newline>\<newline>'') ?ls) \<or> c \<in> set errs"
    unfolding s(1) by (simp only: set_append Un_iff)
  then show "startswith c ''data: '' \<and> endswith c ''\<newline>\<newline>''"
  proof
    assume "c \<in> set errs"
    with s(3) have "c \<in> range sse_error" by (rule subsetD)
    then obtain m where "c = sse_error m" by (rule rangeE)
    then show ?thesis by (simp only: sse_error_startswith sse_error_endswith)
  next
    assume "c \<in> set (map (\<lambda>line. line @ ''\<newline>\<newline>'') ?ls)"
    then obtain l where l: "l \<in> set ?ls" "c = l @ ''\<newline>\<newline>''"
      by (auto simp only: set_map image_iff)
    with ls have "startswith l ''data: ''" by (simp only:)
    with l(2) show ?thesis by (simp only: startswith_append endswith_append)
  qed
qed

theorem every_chunk_is_sse_frame_witness:
  \<open>chunks (pipe demo_lib
      (respond (demo_response 200\<lparr>aiter_raises := Some (OtherException ''peer closed connection'')\<rparr>))
      demo_valves [] None) =
    [''data: {"x":1}\<newline>\<newline>'', ''data: {"x":2}\<newline>\<newline>'',
     sse_error ''Unexpected error: peer closed connection'']
   \<and> startswith ''data: {"x":1}\<newline>\<newline>'' ''data: ''
   \<and> endswith ''data: {"x":1}\<newline>\<newline>'' ''\<newline>\<newline>''
   \<and> startswith (sse_error ''Unexpected error: peer closed connection'') ''data: ''
   \<and> endswith (sse_error ''Unexpected error: peer closed connection'') ''\<newline>\<newline>''\<close>
  using every_chunk_is_sse_frame
    [of demo_lib
        "respond (demo_response 200\<lparr>aiter_raises := Some (OtherException ''peer closed connection'')\<rparr>)"
        demo_valves "[]" None]
  unfolding demo_broken_stream by simp

end
